theory Spec2Isabelle
  imports Complex_Main
begin

section \<open>Steady-state residual functors (SS\_system.hpp)\<close>

text \<open>
  The functors are templates over the scalar type of the state and of the parameters.
  This part instantiates both with \<^verbatim>\<open>double\<close> and reads \<^verbatim>\<open>double\<close> as \<^typ>\<open>real\<close>:
  the properties below are about which branch runs, which element is indexed and what is
  handed to the integrator, not about rounding. An \<^verbatim>\<open>Eigen::Matrix<T, Dynamic, 1>\<close> and a
  \<^verbatim>\<open>std::vector<T>\<close> are both lists, so \<^verbatim>\<open>to_array_1d\<close> and \<^verbatim>\<open>to_vector\<close> are the identity.

  C++ does not check \<^verbatim>\<open>v[i]\<close>; an index outside the container is undefined behaviour.
  The model makes every such access a value of its own, \<open>Out_of_range\<close> with the name of
  the container and the index, so that no property is proved of an unspecified element.
\<close>

datatype error =
    Out_of_range string int
  | Invalid_argument string string string string string

definition at_index :: "string \<Rightarrow> 'a list \<Rightarrow> int \<Rightarrow> error + 'a" where
  "at_index name xs i =
     (if 0 \<le> i \<and> i < int (length xs) then Inr (xs ! nat i) else Inl (Out_of_range name i))"

text \<open>
  Modelled from the spec: \<^verbatim>\<open>stan::math::invalid_argument(function, name, y, msg1, msg2)\<close> is
  declared outside the sources. The spec calls what it does a fatal configuration
  error raised at the point the branch is entered, with a descriptive message; the model
  raises unconditionally and keeps the five arguments as they are passed.
\<close>

definition invalid_argument ::
  "string \<Rightarrow> string \<Rightarrow> string \<Rightarrow> string \<Rightarrow> string \<Rightarrow> error + 'a" where
  "invalid_argument function name y msg1 msg2 = Inl (Invalid_argument function name y msg1 msg2)"

text \<open>
  The right-hand side of the ODE system: \<^verbatim>\<open>f_(t, x, parms, x_r, x_i, msgs)\<close>. The
  message stream is left out.
\<close>

type_synonym ode_rhs = "real \<Rightarrow> real list \<Rightarrow> real list \<Rightarrow> real list \<Rightarrow> int list \<Rightarrow> real list"

text \<open>
  \<^verbatim>\<open>integrator_structure\<close> is declared in Pred1\_general.hpp, which is not among the sources; it is a
  parameter. A call \<^verbatim>\<open>integrator_(f, y0, t0, ts, theta, x_r, x_i)\<close> returns one state vector
  for each time of \<^verbatim>\<open>ts\<close>.
\<close>

type_synonym integrator_structure =
  "ode_rhs \<Rightarrow> real list \<Rightarrow> real \<Rightarrow> real list \<Rightarrow> real list \<Rightarrow> real list \<Rightarrow> int list \<Rightarrow> real list list"

text \<open>
  \<^verbatim>\<open>SS_system_dd\<close> and \<^verbatim>\<open>SS_system_vd\<close> have the same four members, so one record serves
  both. A name cannot end in an underscore here: the members \<^verbatim>\<open>f_\<close>, \<^verbatim>\<open>ii_\<close>, \<^verbatim>\<open>cmt_\<close> and
  \<^verbatim>\<open>integrator_\<close> are the fields \<open>ss_f\<close>, \<open>ss_ii\<close>, \<open>ss_cmt\<close> and \<open>ss_integrator\<close>.
\<close>

record SS_system =
  ss_f :: ode_rhs
  ss_ii :: real
  ss_cmt :: int
  ss_integrator :: integrator_structure

text \<open>
  What one call of the integrator received (the functor \<^verbatim>\<open>f_\<close> apart, which is the same in
  every call). The functors return the calls they made, in order, beside their result, so
  that a statement about what the integrator is given can be read off.
\<close>

record integrator_call =
  call_y0 :: "real list"
  call_t0 :: real
  call_ts :: "real list"
  call_theta :: "real list"
  call_x_r :: "real list"
  call_x_i :: "int list"

definition call ::
  "real list \<Rightarrow> real \<Rightarrow> real list \<Rightarrow> real list \<Rightarrow> real list \<Rightarrow> int list \<Rightarrow> integrator_call" where
  "call y0 t0 ts theta x_r x_i =
     \<lparr>call_y0 = y0, call_t0 = t0, call_ts = ts, call_theta = theta, call_x_r = x_r,
      call_x_i = x_i\<rparr>"

text \<open>
  The loop \<^verbatim>\<open>for (int i = 0; i < result.size(); i++) result(i) = x(i) - pred[i];\<close> with
  \<^verbatim>\<open>result\<close> of the size of \<^verbatim>\<open>x\<close>. It reads \<^verbatim>\<open>pred[i]\<close> for every index of \<^verbatim>\<open>x\<close>; the first
  index that \<^verbatim>\<open>pred\<close> lacks is its length.
\<close>

definition residual :: "real list \<Rightarrow> real list \<Rightarrow> error + real list" where
  "residual x pred =
     (if length x \<le> length pred then Inr (map (\<lambda>i. x ! i - pred ! i) [0..<length x])
      else Inl (Out_of_range ''pred'' (int (length pred))))"

text \<open>
  \<^verbatim>\<open>if (cmt_ >= 0) x0[cmt_ - 1] += amt;\<close> as both functors have it.
\<close>

definition add_dose :: "int \<Rightarrow> real list \<Rightarrow> real \<Rightarrow> error + real list" where
  "add_dose cmt x0 amt =
     (if cmt \<ge> 0 then
        (case at_index ''x0'' x0 (cmt - 1) of
           Inl e \<Rightarrow> Inl e
         | Inr v \<Rightarrow> Inr (x0[nat (cmt - 1) := v + amt]))
      else Inr x0)"

text \<open>
  \<^verbatim>\<open>SS_system_dd::operator()\<close>: amount and rate are data. \<^verbatim>\<open>dat\<close> holds the rate of each
  compartment followed by the amount. \<^verbatim>\<open>check_mti\<close> (check\_mti.hpp) is not among the sources and is a
  parameter: it returns the error it raises, if any. \<^verbatim>\<open>dat.size() - 1\<close> is unsigned in the
  source and wraps to the largest index when \<^verbatim>\<open>dat\<close> is empty; the model's \<open>-1\<close> is out of
  range just the same.
\<close>

definition SS_system_dd ::
  "SS_system \<Rightarrow> (real \<Rightarrow> real \<Rightarrow> real \<Rightarrow> string \<Rightarrow> error option) \<Rightarrow>
   real list \<Rightarrow> real list \<Rightarrow> real list \<Rightarrow> int list \<Rightarrow> integrator_call list \<times> (error + real list)" where
  "SS_system_dd s check_mti x y dat dat_int =
     (let t0 = 0; x0 = x in
      (case at_index ''dat'' dat (int (length dat) - 1) of
         Inl e \<Rightarrow> ([], Inl e)
       | Inr amt \<Rightarrow>
      (case (if ss_cmt s - 1 \<ge> 0 then at_index ''dat'' dat (ss_cmt s - 1) else Inr 0) of
         Inl e \<Rightarrow> ([], Inl e)
       | Inr rate \<Rightarrow>
      (let dat_ode = butlast dat in
       if rate = 0 then
         (case add_dose (ss_cmt s) x0 amt of
            Inl e \<Rightarrow> ([], Inl e)
          | Inr x0' \<Rightarrow>
            (let ts = [ss_ii s]; c = call x0' t0 ts y dat_ode dat_int in
             (case at_index ''integrator_''
                     (ss_integrator s (ss_f s) x0' t0 ts y dat_ode dat_int) 0 of
                Inl e \<Rightarrow> ([c], Inl e)
              | Inr pred \<Rightarrow> ([c], residual x pred))))
       else if ss_ii s > 0 then
         (let delta = amt / rate in
          (case check_mti amt delta (ss_ii s) ''Steady State Event'' of
             Some e \<Rightarrow> ([], Inl e)
           | None \<Rightarrow>
             (let ts = [delta]; c1 = call x t0 ts y dat_ode dat_int in
              (case at_index ''integrator_''
                      (ss_integrator s (ss_f s) x t0 ts y dat_ode dat_int) 0 of
                 Inl e \<Rightarrow> ([c1], Inl e)
               | Inr x0' \<Rightarrow>
                 (let ts = [ss_ii s - delta];
                      rate_v = replicate (length dat) (0::real);
                      c2 = call x0' t0 ts y dat_ode dat_int in
                  (case at_index ''integrator_''
                          (ss_integrator s (ss_f s) x0' t0 ts y dat_ode dat_int) 0 of
                     Inl e \<Rightarrow> ([c1, c2], Inl e)
                   | Inr pred \<Rightarrow> ([c1, c2], residual x pred)))))))
       else ([], Inr (ss_f s 0 x y dat_ode dat_int))))))"

text \<open>
  \<^verbatim>\<open>SS_system_vd::operator()\<close>: the amount is the last element of \<^verbatim>\<open>y\<close>, and \<^verbatim>\<open>dat\<close> stores
  the rates and is passed on whole.
\<close>

definition SS_system_vd ::
  "SS_system \<Rightarrow> real list \<Rightarrow> real list \<Rightarrow> real list \<Rightarrow> int list \<Rightarrow>
   integrator_call list \<times> (error + real list)" where
  "SS_system_vd s x y dat dat_int =
     (let t0 = 0; rate_v = dat; x0 = x in
      (case at_index ''y'' y (int (length y) - 1) of
         Inl e \<Rightarrow> ([], Inl e)
       | Inr amt \<Rightarrow>
      (case (if ss_cmt s - 1 \<ge> 0 then at_index ''dat'' dat (ss_cmt s - 1) else Inr 0) of
         Inl e \<Rightarrow> ([], Inl e)
       | Inr rate \<Rightarrow>
      (let parms = butlast y in
       if rate = 0 then
         (case add_dose (ss_cmt s) x0 amt of
            Inl e \<Rightarrow> ([], Inl e)
          | Inr x0' \<Rightarrow>
            (let ts = [ss_ii s]; c = call x0' t0 ts parms dat dat_int in
             (case at_index ''integrator_''
                     (ss_integrator s (ss_f s) x0' t0 ts parms dat dat_int) 0 of
                Inl e \<Rightarrow> ([c], Inl e)
              | Inr pred \<Rightarrow> ([c], residual x pred))))
       else if ss_ii s > 0 then
         ([], invalid_argument ''Steady State Event''
                ''Current version does not handle the case of''
                '''' '' multiple truncated infusions ''
                ''(i.e ii > 0 and rate > 0) when F * amt is a parameter.'')
       else ([], Inr (ss_f s 0 x parms dat dat_int))))))"

text \<open>
  A system to evaluate the functors on: the integrator halves every component of the
  initial state over any interval and returns one state for each time asked.
\<close>

definition half_system :: "int \<Rightarrow> SS_system" where
  "half_system cmt =
     \<lparr>ss_f = (\<lambda>t x p r i. x), ss_ii = 24, ss_cmt = cmt,
      ss_integrator = (\<lambda>f y0 t0 ts p r i. map (\<lambda>t. map (\<lambda>v. v / 2) y0) ts)\<rparr>"

text \<open>
  A second system to evaluate the functors on, whose integrator uses the real data it is
  given: every component grows at the rate found at its index in \<open>x_r\<close>, and there is one
  state for each time asked.
\<close>

definition infusion_system :: "int \<Rightarrow> SS_system" where
  "infusion_system cmt =
     \<lparr>ss_f = (\<lambda>t x p r i. r), ss_ii = 24, ss_cmt = cmt,
      ss_integrator =
        (\<lambda>f y0 t0 ts p r i. map (\<lambda>t. map2 (\<lambda>v q. v + q * (t - t0)) y0 r) ts)\<rparr>"

section \<open>Comparison with tolerances (test\_util.hpp)\<close>

text \<open>
  An \<^verbatim>\<open>Eigen::Matrix<T, -1, -1>\<close>: its dimensions and its coefficients in storage order.
  \<^verbatim>\<open>y.size()\<close> is \<open>rows * cols\<close> and \<^verbatim>\<open>y(i)\<close> is the coefficient at linear index \<open>i\<close>.
  \<^verbatim>\<open>value_of\<close> is the identity on \<^verbatim>\<open>double\<close>.
\<close>

record matrix =
  rows :: nat
  cols :: nat
  coeffs :: "real list"

text \<open>
  The assertions of the test framework: \<^verbatim>\<open>EXPECT_EQ(a, b)\<close> holds when \<open>a = b\<close>, and
  \<^verbatim>\<open>EXPECT_NEAR(v1, v2, abs_error)\<close> holds when \<open>\<bar>v1 - v2\<bar> \<le> abs_error\<close>. A failed
  \<^verbatim>\<open>EXPECT_\<close> assertion does not stop the test, so a run yields the outcome of every
  assertion it reached, in order, and the test passes when all of them hold.
\<close>

definition EXPECT_EQ :: "'a \<Rightarrow> 'a \<Rightarrow> bool" where
  "EXPECT_EQ a b = (a = b)"

definition EXPECT_NEAR :: "real \<Rightarrow> real \<Rightarrow> real \<Rightarrow> bool" where
  "EXPECT_NEAR v1 v2 abs_error = (\<bar>v1 - v2\<bar> \<le> abs_error)"

text \<open>
  The body of the loop of \<^verbatim>\<open>test_val(y1, y2, rtol, atol)\<close> for the indices still to visit.
  The unqualified \<^verbatim>\<open>abs\<close> of the source is read as the absolute value of a \<^verbatim>\<open>double\<close>.
\<close>

primrec test_val_loop ::
  "matrix \<Rightarrow> matrix \<Rightarrow> real \<Rightarrow> real \<Rightarrow> nat list \<Rightarrow> error + bool list" where
  "test_val_loop y1 y2 rtol atol [] = Inr []"
| "test_val_loop y1 y2 rtol atol (i # rest) =
     (case at_index ''y1'' (coeffs y1) (int i) of
        Inl e \<Rightarrow> Inl e
      | Inr y1_i \<Rightarrow>
     (case at_index ''y2'' (coeffs y2) (int i) of
        Inl e \<Rightarrow> Inl e
      | Inr y2_i \<Rightarrow>
     (let outcome =
            (if \<bar>y1_i\<bar> < 1 / 100000 \<and> \<bar>y2_i\<bar> < 1 / 100000 then EXPECT_NEAR y1_i y2_i atol
             else (let err = max y1_i y2_i * rtol in EXPECT_NEAR y1_i y2_i err))
      in (case test_val_loop y1 y2 rtol atol rest of
            Inl e \<Rightarrow> Inl e
          | Inr outcomes \<Rightarrow> Inr (outcome # outcomes)))))"

definition test_val :: "matrix \<Rightarrow> matrix \<Rightarrow> real \<Rightarrow> real \<Rightarrow> error + bool list" where
  "test_val y1 y2 rtol atol =
     (case test_val_loop y1 y2 rtol atol [0..<rows y1 * cols y1] of
        Inl e \<Rightarrow> Inl e
      | Inr outcomes \<Rightarrow>
          Inr (EXPECT_EQ (rows y1) (rows y2) # EXPECT_EQ (cols y1) (cols y2) # outcomes))"

text \<open>
  The comparison of one pair of elements in the words of the specification: within
  \<open>atol\<close> when both magnitudes are below \<open>1e-5\<close>, otherwise within \<open>rtol\<close> times the larger
  of the two magnitudes. \<^verbatim>\<open>test_grad\<close> in the same file compares a gradient with its finite
  difference in this way, with \<^verbatim>\<open>std::max(abs(g[0]), abs(g_fd))\<close>.
\<close>

definition compare_as_specified :: "real \<Rightarrow> real \<Rightarrow> real \<Rightarrow> real \<Rightarrow> bool" where
  "compare_as_specified y1_i y2_i rtol atol =
     (if \<bar>y1_i\<bar> < 1 / 100000 \<and> \<bar>y2_i\<bar> < 1 / 100000 then \<bar>y1_i - y2_i\<bar> \<le> atol
      else \<bar>y1_i - y2_i\<bar> \<le> rtol * max \<bar>y1_i\<bar> \<bar>y2_i\<bar>)"

section \<open>Forward-mode dual numbers and \<open>acos\<close>\<close>

text \<open>
  The dual-number type and its functions (\<^verbatim>\<open>stan/agrad/fvar.hpp\<close> and the function
  overloads) are not among the sources; only their test, acos\_test.cpp, is. The
  definitions of this section follow the specification.
\<close>

text \<open>
  Modelled from the spec: the scalar \<^verbatim>\<open>double\<close>, as far as the specification speaks of it.
  A finite value is carried exactly, with no rounding; beside the finite values there are
  the two infinities and NaN. Arithmetic follows the rules the specification appeals to:
  NaN propagates, a division of a nonzero value by zero is an infinity with the sign of
  the numerator (\<open>-1/0\<close> is \<open>-\<infinity>\<close>), \<open>0/0\<close>, \<open>\<infinity> - \<infinity>\<close>, \<open>0 * \<infinity>\<close> and \<open>\<infinity> / \<infinity>\<close> are NaN, and
  \<open>sqrt\<close> of a negative value and \<open>acos\<close> outside \<open>[-1, 1]\<close> are NaN. The two zeros of the
  machine format are not told apart.
\<close>

datatype double = Fin real | PInf | NInf | NaN

fun is_negative :: "double \<Rightarrow> bool" where
  "is_negative (Fin x) = (x < 0)"
| "is_negative NInf = True"
| "is_negative PInf = False"
| "is_negative NaN = False"

definition infinity :: "bool \<Rightarrow> double" where
  "infinity negative = (if negative then NInf else PInf)"

fun d_neg :: "double \<Rightarrow> double" where
  "d_neg (Fin x) = Fin (- x)"
| "d_neg PInf = NInf"
| "d_neg NInf = PInf"
| "d_neg NaN = NaN"

fun d_add :: "double \<Rightarrow> double \<Rightarrow> double" where
  "d_add (Fin x) (Fin y) = Fin (x + y)"
| "d_add NaN b = NaN"
| "d_add a NaN = NaN"
| "d_add PInf NInf = NaN"
| "d_add NInf PInf = NaN"
| "d_add (Fin x) b = b"
| "d_add a b = a"

definition d_sub :: "double \<Rightarrow> double \<Rightarrow> double" where
  "d_sub a b = d_add a (d_neg b)"

fun d_mul :: "double \<Rightarrow> double \<Rightarrow> double" where
  "d_mul (Fin x) (Fin y) = Fin (x * y)"
| "d_mul NaN b = NaN"
| "d_mul a NaN = NaN"
| "d_mul a b = (if a = Fin 0 \<or> b = Fin 0 then NaN else infinity (is_negative a \<noteq> is_negative b))"

fun d_div :: "double \<Rightarrow> double \<Rightarrow> double" where
  "d_div (Fin x) (Fin y) =
     (if y = 0 then (if x = 0 then NaN else infinity (x < 0)) else Fin (x / y))"
| "d_div NaN b = NaN"
| "d_div a NaN = NaN"
| "d_div (Fin x) b = Fin 0"
| "d_div a (Fin y) = infinity (is_negative a \<noteq> (y < 0))"
| "d_div a b = NaN"

fun d_sqrt :: "double \<Rightarrow> double" where
  "d_sqrt (Fin x) = (if x < 0 then NaN else Fin (sqrt x))"
| "d_sqrt PInf = PInf"
| "d_sqrt NInf = NaN"
| "d_sqrt NaN = NaN"

fun d_acos :: "double \<Rightarrow> double" where
  "d_acos (Fin x) = (if - 1 \<le> x \<and> x \<le> 1 then Fin (arccos x) else NaN)"
| "d_acos a = NaN"

text \<open>
  The functions are templates over the scalar type \<open>T\<close>. The operations a template uses
  of \<open>T\<close> are passed as a record: a \<^verbatim>\<open>double\<close> constant as a \<open>T\<close>, the arithmetic, \<open>sqrt\<close> and
  \<open>acos\<close>.
\<close>

record 'a scalar =
  op_const :: "double \<Rightarrow> 'a"
  op_add :: "'a \<Rightarrow> 'a \<Rightarrow> 'a"
  op_sub :: "'a \<Rightarrow> 'a \<Rightarrow> 'a"
  op_mul :: "'a \<Rightarrow> 'a \<Rightarrow> 'a"
  op_div :: "'a \<Rightarrow> 'a \<Rightarrow> 'a"
  op_neg :: "'a \<Rightarrow> 'a"
  op_sqrt :: "'a \<Rightarrow> 'a"
  op_acos :: "'a \<Rightarrow> 'a"

definition double_ops :: "double scalar" where
  "double_ops =
     \<lparr>op_const = (\<lambda>c. c), op_add = d_add, op_sub = d_sub, op_mul = d_mul, op_div = d_div,
      op_neg = d_neg, op_sqrt = d_sqrt, op_acos = d_acos\<rparr>"

text \<open>
  Modelled from the spec: the range of \<^verbatim>\<open>double\<close>. The operations above keep every finite
  result, however large. A \<^verbatim>\<open>double\<close> holds no finite value beyond \<open>DBL_MAX\<close>, the largest
  one, \<open>(2 - 2^-52) * 2^1023\<close>: an arithmetic result beyond it is the infinity of its sign.
  The operations below are the ones above followed by this overflow; they are what a
  property that holds for every finite operand has to be stated for. Negation, \<open>sqrt\<close> and
  \<open>acos\<close> do not leave the range. Rounding within the range is still left out.
\<close>

definition DBL_MAX :: real where
  "DBL_MAX = (2 - 1 / 2 ^ 52) * 2 ^ 1023"

fun overflow :: "double \<Rightarrow> double" where
  "overflow (Fin x) = (if DBL_MAX < x then PInf else if x < - DBL_MAX then NInf else Fin x)"
| "overflow a = a"

definition ovf_add :: "double \<Rightarrow> double \<Rightarrow> double" where
  "ovf_add a b = overflow (d_add a b)"

definition ovf_sub :: "double \<Rightarrow> double \<Rightarrow> double" where
  "ovf_sub a b = overflow (d_sub a b)"

definition ovf_mul :: "double \<Rightarrow> double \<Rightarrow> double" where
  "ovf_mul a b = overflow (d_mul a b)"

definition ovf_div :: "double \<Rightarrow> double \<Rightarrow> double" where
  "ovf_div a b = overflow (d_div a b)"

definition double_overflow_ops :: "double scalar" where
  "double_overflow_ops =
     \<lparr>op_const = (\<lambda>c. c), op_add = ovf_add, op_sub = ovf_sub, op_mul = ovf_mul,
      op_div = ovf_div, op_neg = d_neg, op_sqrt = d_sqrt, op_acos = d_acos\<rparr>"

text \<open>
  Modelled from the spec: \<^verbatim>\<open>Dual<T>\<close>, a value and its tangent, both of type \<open>T\<close>. A
  constant has tangent 0. The arithmetic operators give the primal result and combine the
  tangents by the sum, product and quotient rules; an operator with one \<open>T\<close>-typed constant
  operand scales or shifts the value and scales or keeps the tangent.
\<close>

datatype 'a Dual = Dual (val: 'a) (tangent: 'a)

definition dual_const :: "'a scalar \<Rightarrow> double \<Rightarrow> 'a Dual" where
  "dual_const T c = Dual (op_const T c) (op_const T (Fin 0))"

definition dual_add :: "'a scalar \<Rightarrow> 'a Dual \<Rightarrow> 'a Dual \<Rightarrow> 'a Dual" where
  "dual_add T a b = Dual (op_add T (val a) (val b)) (op_add T (tangent a) (tangent b))"

definition dual_sub :: "'a scalar \<Rightarrow> 'a Dual \<Rightarrow> 'a Dual \<Rightarrow> 'a Dual" where
  "dual_sub T a b = Dual (op_sub T (val a) (val b)) (op_sub T (tangent a) (tangent b))"

definition dual_neg :: "'a scalar \<Rightarrow> 'a Dual \<Rightarrow> 'a Dual" where
  "dual_neg T a = Dual (op_neg T (val a)) (op_neg T (tangent a))"

definition dual_mul :: "'a scalar \<Rightarrow> 'a Dual \<Rightarrow> 'a Dual \<Rightarrow> 'a Dual" where
  "dual_mul T a b =
     Dual (op_mul T (val a) (val b))
          (op_add T (op_mul T (tangent a) (val b)) (op_mul T (val a) (tangent b)))"

definition dual_div :: "'a scalar \<Rightarrow> 'a Dual \<Rightarrow> 'a Dual \<Rightarrow> 'a Dual" where
  "dual_div T a b =
     Dual (op_div T (val a) (val b))
          (op_div T (op_sub T (op_mul T (tangent a) (val b)) (op_mul T (val a) (tangent b)))
                    (op_mul T (val b) (val b)))"

definition dual_scale :: "'a scalar \<Rightarrow> 'a \<Rightarrow> 'a Dual \<Rightarrow> 'a Dual" where
  "dual_scale T c a = Dual (op_mul T c (val a)) (op_mul T c (tangent a))"

text \<open>
  Modelled from the spec: an elementary function \<open>g\<close> on \<^verbatim>\<open>Dual<T>\<close> is
  \<open>g (Dual v d) = Dual (g v) (g' v * d)\<close> with \<open>g'\<close> the analytic derivative of \<open>g\<close>. For
  \<open>sqrt\<close> that is \<open>1 / (2 * sqrt v)\<close>; for \<open>acos\<close> the specification gives
  \<open>g' v = -1 / sqrt (1 - v^2)\<close>.
\<close>

definition sqrt_dual :: "'a scalar \<Rightarrow> 'a Dual \<Rightarrow> 'a Dual" where
  "sqrt_dual T x =
     Dual (op_sqrt T (val x))
          (op_mul T (op_div T (op_const T (Fin 1))
                              (op_mul T (op_const T (Fin 2)) (op_sqrt T (val x))))
                    (tangent x))"

definition acos_dual :: "'a scalar \<Rightarrow> 'a Dual \<Rightarrow> 'a Dual" where
  "acos_dual T x =
     Dual (op_acos T (val x))
          (op_mul T (op_div T (op_const T (Fin (- 1)))
                              (op_sqrt T (op_sub T (op_const T (Fin 1))
                                                   (op_mul T (val x) (val x)))))
                    (tangent x))"

text \<open>
  \<^verbatim>\<open>Dual<T>\<close> is a scalar type in its turn, which is what \<^verbatim>\<open>Dual<Dual<double>>\<close> takes its
  operations from.
\<close>

definition dual_ops :: "'a scalar \<Rightarrow> 'a Dual scalar" where
  "dual_ops T =
     \<lparr>op_const = dual_const T, op_add = dual_add T, op_sub = dual_sub T, op_mul = dual_mul T,
      op_div = dual_div T, op_neg = dual_neg T, op_sqrt = sqrt_dual T, op_acos = acos_dual T\<rparr>"






section \<open>Properties of the steady-state functors\<close>

lemma at_index_in_range: "0 \<le> i \<Longrightarrow> i < int (length xs) \<Longrightarrow> at_index name xs i = Inr (xs ! nat i)"
  by (simp add: at_index_def)

lemma at_index_last: "xs \<noteq> [] \<Longrightarrow> at_index name xs (int (length xs) - 1) = Inr (last xs)"
  by (simp add: at_index_def last_conv_nth nat_diff_distrib')

text \<open>
  C6. In \<^verbatim>\<open>SS_system_vd::operator()\<close>, a call whose rate at the dosing compartment is not
  zero and whose \<open>ii\<close> is positive raises the invalid-argument error of the
  truncated-infusion branch: the message names the multiple truncated infusions, no
  residual is returned and the integrator is not called. The rate at the dosing
  compartment is \<^verbatim>\<open>dat[cmt_ - 1]\<close>, so the dosing compartment indexes \<^verbatim>\<open>dat\<close>; \<^verbatim>\<open>y\<close> holds the
  amount as its last element, so it is not empty.
\<close>

theorem SS_system_vd_truncated_infusion_raises:
  assumes "1 \<le> ss_cmt s" and "ss_cmt s \<le> int (length dat)"
    and "dat ! nat (ss_cmt s - 1) \<noteq> 0" and "ss_ii s > 0" and "y \<noteq> []"
  shows "SS_system_vd s x y dat dat_int =
           ([], Inl (Invalid_argument ''Steady State Event''
                  ''Current version does not handle the case of''
                  '''' '' multiple truncated infusions ''
                  ''(i.e ii > 0 and rate > 0) when F * amt is a parameter.''))"
proof -
  have amt: "at_index ''y'' y (int (length y) - 1) = Inr (last y)"
    using assms(5) by (rule at_index_last)
  have rate: "at_index ''dat'' dat (ss_cmt s - 1) = Inr (dat ! nat (ss_cmt s - 1))"
    using assms(1,2) by (intro at_index_in_range) simp_all
  show ?thesis
    unfolding SS_system_vd_def Let_def amt rate invalid_argument_def
    using assms(1,3,4) by simp
qed

theorem SS_system_vd_truncated_infusion_raises_witness:
  "SS_system_vd (half_system 1) [0, 0] [1, 100] [5, 0] [] =
     ([], Inl (Invalid_argument ''Steady State Event''
            ''Current version does not handle the case of''
            '''' '' multiple truncated infusions ''
            ''(i.e ii > 0 and rate > 0) when F * amt is a parameter.''))"
  using SS_system_vd_truncated_infusion_raises
    [where s = "half_system 1" and x = "[0, 0]" and y = "[1, 100]" and dat = "[5, 0]"
       and dat_int = "[]"]
  by (simp add: half_system_def)

lemma residual_map2:
  assumes "length x \<le> length pred"
  shows "residual x pred = Inr (map2 (-) x pred)"
proof -
  have "map (\<lambda>i. x ! i - pred ! i) [0..<length x] = map2 (-) x pred"
    using assms by (intro nth_equalityI) simp_all
  then show ?thesis
    using assms by (simp add: residual_def)
qed

lemma residual_self: "residual x x = Inr (replicate (length x) 0)"
proof -
  have "map (\<lambda>i. x ! i - x ! i) [0..<length x] = replicate (length x) 0"
    by (intro nth_equalityI) simp_all
  then show ?thesis
    by (simp add: residual_def)
qed

lemma at_index_hd: "at_index name (p # rest) 0 = Inr p"
  by (simp add: at_index_def)

lemma add_dose_in_range:
  "1 \<le> cmt \<Longrightarrow> cmt \<le> int (length x0) \<Longrightarrow>
   add_dose cmt x0 amt = Inr (x0[nat (cmt - 1) := x0 ! nat (cmt - 1) + amt])"
  by (simp add: add_dose_def at_index_def)

lemma add_dose_out_of_range:
  "0 \<le> cmt \<Longrightarrow> \<not> (1 \<le> cmt \<and> cmt \<le> int (length x0)) \<Longrightarrow>
   add_dose cmt x0 amt = Inl (Out_of_range ''x0'' (cmt - 1))"
  by (auto simp add: add_dose_def at_index_def)

text \<open>
  C7. In \<^verbatim>\<open>SS_system_dd::operator()\<close>, with a dosing compartment \<open>cmt \<ge> 1\<close> whose rate
  \<^verbatim>\<open>dat[cmt - 1]\<close> is zero (the bolus regime), the residual returned is \<open>x\<close> minus the state
  the integrator returns for time \<open>ii\<close>, started at time 0 from \<open>x\<close> with the amount (the last
  element of \<^verbatim>\<open>dat\<close>) added to component \<open>cmt - 1\<close>; when that state is \<open>x\<close> itself, the
  residual is the zero vector. The dosing compartment indexes \<open>x\<close> and \<^verbatim>\<open>dat\<close>, and the
  integrator returns a state for the one time asked, with a component for each of \<open>x\<close>.
\<close>

theorem SS_system_dd_bolus_residual:
  assumes "1 \<le> ss_cmt s" and "ss_cmt s \<le> int (length x)" and "ss_cmt s \<le> int (length dat)"
    and "dat ! nat (ss_cmt s - 1) = 0"
    and "ss_integrator s (ss_f s) (x[nat (ss_cmt s - 1) := x ! nat (ss_cmt s - 1) + last dat])
           0 [ss_ii s] y (butlast dat) dat_int = pred # rest"
    and "length x \<le> length pred"
  shows "snd (SS_system_dd s check_mti x y dat dat_int) = Inr (map2 (-) x pred) \<and>
         (pred = x \<longrightarrow>
            snd (SS_system_dd s check_mti x y dat dat_int) = Inr (replicate (length x) 0))"
proof -
  have ne: "dat \<noteq> []" using assms(1,3) by auto
  have amt: "at_index ''dat'' dat (int (length dat) - 1) = Inr (last dat)"
    using ne by (rule at_index_last)
  have rate: "at_index ''dat'' dat (ss_cmt s - 1) = Inr 0"
    using assms(1,3,4) by (simp add: at_index_def)
  have dose: "add_dose (ss_cmt s) x (last dat) =
                Inr (x[nat (ss_cmt s - 1) := x ! nat (ss_cmt s - 1) + last dat])"
    using assms(1,2) by (rule add_dose_in_range)
  have res: "snd (SS_system_dd s check_mti x y dat dat_int) = residual x pred"
    using assms(1) by (simp add: SS_system_dd_def amt rate dose assms(5) at_index_hd)
  have general: "snd (SS_system_dd s check_mti x y dat dat_int) = Inr (map2 (-) x pred)"
    using res residual_map2 [OF assms(6)] by simp
  have fixed: "snd (SS_system_dd s check_mti x y dat dat_int) = Inr (replicate (length x) 0)"
    if "pred = x"
    using res that by (simp add: residual_self)
  show ?thesis
    using general fixed by blast
qed

theorem SS_system_dd_bolus_residual_witness:
  "snd (SS_system_dd (half_system 1) (\<lambda>amt delta ii fn. None) [100, 0] [] [0, 0, 100] []) =
     Inr [0, 0]"
  using SS_system_dd_bolus_residual
    [where s = "half_system 1" and x = "[100, 0]" and dat = "[0, 0, 100]" and y = "[]"
       and dat_int = "[]" and pred = "[100, 0]" and rest = "[]"
       and check_mti = "\<lambda>amt delta ii fn. None"]
  by (simp add: half_system_def)

lemma at_index_rate_zero:
  "1 \<le> cmt \<Longrightarrow> cmt \<le> int (length dat) \<Longrightarrow> dat ! nat (cmt - 1) = 0 \<Longrightarrow>
   at_index ''dat'' dat (cmt - 1) = Inr 0"
  by (simp add: at_index_def)

lemma bolus_result_cases:
  "snd (case at_index ''integrator_'' r 0 of
          Inl e \<Rightarrow> ([c], Inl e)
        | Inr pred \<Rightarrow> ([c], residual x pred)) \<noteq> Inl (Out_of_range ''x0'' i)"
  by (simp add: at_index_def residual_def)

lemma SS_system_dd_bolus:
  assumes "dat \<noteq> []"
    and "ss_cmt s \<le> 0 \<or>
         (1 \<le> ss_cmt s \<and> ss_cmt s \<le> int (length dat) \<and> dat ! nat (ss_cmt s - 1) = 0)"
  shows "SS_system_dd s check_mti x y dat dat_int =
           (case add_dose (ss_cmt s) x (last dat) of
              Inl e \<Rightarrow> ([], Inl e)
            | Inr x0' \<Rightarrow>
                (case at_index ''integrator_''
                        (ss_integrator s (ss_f s) x0' 0 [ss_ii s] y (butlast dat) dat_int) 0 of
                   Inl e \<Rightarrow> ([call x0' 0 [ss_ii s] y (butlast dat) dat_int], Inl e)
                 | Inr pred \<Rightarrow>
                     ([call x0' 0 [ss_ii s] y (butlast dat) dat_int], residual x pred)))"
proof -
  have amt: "at_index ''dat'' dat (int (length dat) - 1) = Inr (last dat)"
    using assms(1) by (rule at_index_last)
  have rate: "(if ss_cmt s - 1 \<ge> 0 then at_index ''dat'' dat (ss_cmt s - 1) else Inr 0) = Inr 0"
    using assms(2) by (auto simp add: at_index_rate_zero)
  show ?thesis
    unfolding SS_system_dd_def amt rate by (simp add: Let_def cong: sum.case_cong)
qed

lemma SS_system_vd_bolus:
  assumes "y \<noteq> []"
    and "ss_cmt s \<le> 0 \<or>
         (1 \<le> ss_cmt s \<and> ss_cmt s \<le> int (length dat) \<and> dat ! nat (ss_cmt s - 1) = 0)"
  shows "SS_system_vd s x y dat dat_int =
           (case add_dose (ss_cmt s) x (last y) of
              Inl e \<Rightarrow> ([], Inl e)
            | Inr x0' \<Rightarrow>
                (case at_index ''integrator_''
                        (ss_integrator s (ss_f s) x0' 0 [ss_ii s] (butlast y) dat dat_int) 0 of
                   Inl e \<Rightarrow> ([call x0' 0 [ss_ii s] (butlast y) dat dat_int], Inl e)
                 | Inr pred \<Rightarrow>
                     ([call x0' 0 [ss_ii s] (butlast y) dat dat_int], residual x pred)))"
proof -
  have amt: "at_index ''y'' y (int (length y) - 1) = Inr (last y)"
    using assms(1) by (rule at_index_last)
  have rate: "(if ss_cmt s - 1 \<ge> 0 then at_index ''dat'' dat (ss_cmt s - 1) else Inr 0) = Inr 0"
    using assms(2) by (auto simp add: at_index_rate_zero)
  show ?thesis
    unfolding SS_system_vd_def amt rate by (simp add: Let_def cong: sum.case_cong)
qed

lemma bolus_out_of_range_iff:
  assumes "0 \<le> cmt"
  shows "(snd (case add_dose cmt x amt of
                Inl e \<Rightarrow> ([], Inl e)
              | Inr x0' \<Rightarrow>
                  (case at_index ''integrator_'' (g x0') 0 of
                     Inl e \<Rightarrow> ([c x0'], Inl e)
                   | Inr pred \<Rightarrow> ([c x0'], residual x pred))) =
            Inl (Out_of_range ''x0'' (cmt - 1))) =
         (\<not> (1 \<le> cmt \<and> cmt \<le> int (length x)))"
proof (cases "1 \<le> cmt \<and> cmt \<le> int (length x)")
  case True
  then show ?thesis
    by (simp add: add_dose_in_range bolus_result_cases)
next
  case False
  then show ?thesis
    using assms by (simp add: add_dose_out_of_range)
qed

text \<open>
  C9. In the bolus branch of both functors the amount is added at index \<open>cmt - 1\<close> under
  the guard \<open>cmt \<ge> 0\<close>. For a call that passes the guard, the access is outside the state
  vector exactly when \<open>1 \<le> cmt \<le> length x\<close> fails; a call with \<open>cmt = 0\<close> passes the guard
  and addresses index \<open>-1\<close>.
\<close>

theorem bolus_dose_index_in_bounds:
  assumes "dat \<noteq> []" and "y \<noteq> []" and "0 \<le> ss_cmt s"
    and "ss_cmt s = 0 \<or>
         (1 \<le> ss_cmt s \<and> ss_cmt s \<le> int (length dat) \<and> dat ! nat (ss_cmt s - 1) = 0)"
  shows "((snd (SS_system_dd s check_mti x y dat dat_int) =
             Inl (Out_of_range ''x0'' (ss_cmt s - 1))) =
          (\<not> (1 \<le> ss_cmt s \<and> ss_cmt s \<le> int (length x)))) \<and>
         ((snd (SS_system_vd s x y dat dat_int) =
             Inl (Out_of_range ''x0'' (ss_cmt s - 1))) =
          (\<not> (1 \<le> ss_cmt s \<and> ss_cmt s \<le> int (length x)))) \<and>
         (ss_cmt s = 0 \<longrightarrow>
            SS_system_dd s check_mti x y dat dat_int = ([], Inl (Out_of_range ''x0'' (- 1))) \<and>
            SS_system_vd s x y dat dat_int = ([], Inl (Out_of_range ''x0'' (- 1))))"
proof -
  have bolus: "ss_cmt s \<le> 0 \<or>
         (1 \<le> ss_cmt s \<and> ss_cmt s \<le> int (length dat) \<and> dat ! nat (ss_cmt s - 1) = 0)"
    using assms(4) by auto
  note dd = SS_system_dd_bolus [OF assms(1) bolus]
  note vd = SS_system_vd_bolus [OF assms(2) bolus]
  have 1: "(snd (SS_system_dd s check_mti x y dat dat_int) =
             Inl (Out_of_range ''x0'' (ss_cmt s - 1))) =
          (\<not> (1 \<le> ss_cmt s \<and> ss_cmt s \<le> int (length x)))"
    unfolding dd by (rule bolus_out_of_range_iff [OF assms(3)])
  have 2: "(snd (SS_system_vd s x y dat dat_int) =
             Inl (Out_of_range ''x0'' (ss_cmt s - 1))) =
          (\<not> (1 \<le> ss_cmt s \<and> ss_cmt s \<le> int (length x)))"
    unfolding vd by (rule bolus_out_of_range_iff [OF assms(3)])
  have 3: "SS_system_dd s check_mti x y dat dat_int = ([], Inl (Out_of_range ''x0'' (- 1)))"
    if "ss_cmt s = 0"
    unfolding dd using that by (simp add: add_dose_out_of_range)
  have 4: "SS_system_vd s x y dat dat_int = ([], Inl (Out_of_range ''x0'' (- 1)))"
    if "ss_cmt s = 0"
    unfolding vd using that by (simp add: add_dose_out_of_range)
  show ?thesis
    using 1 2 3 4 by blast
qed

theorem bolus_dose_index_in_bounds_witness:
  "SS_system_dd (half_system 0) (\<lambda>amt delta ii fn. None) [100, 0] [100] [0, 0, 100] [] =
     ([], Inl (Out_of_range ''x0'' (- 1))) \<and>
   SS_system_vd (half_system 0) [100, 0] [100] [0, 0, 100] [] =
     ([], Inl (Out_of_range ''x0'' (- 1)))"
  using bolus_dose_index_in_bounds
    [where s = "half_system 0" and x = "[100, 0]" and dat = "[0, 0, 100]" and y = "[100]"
       and dat_int = "[]" and check_mti = "\<lambda>amt delta ii fn. None"]
  by (simp add: half_system_def)

lemma SS_system_dd_truncated:
  assumes "1 \<le> ss_cmt s" and "ss_cmt s \<le> int (length dat)"
    and "dat ! nat (ss_cmt s - 1) \<noteq> 0" and "ss_ii s > 0"
  shows "SS_system_dd s check_mti x y dat dat_int =
           (case check_mti (last dat) (last dat / dat ! nat (ss_cmt s - 1)) (ss_ii s)
                   ''Steady State Event'' of
              Some e \<Rightarrow> ([], Inl e)
            | None \<Rightarrow>
                (case at_index ''integrator_''
                        (ss_integrator s (ss_f s) x 0 [last dat / dat ! nat (ss_cmt s - 1)] y
                           (butlast dat) dat_int) 0 of
                   Inl e \<Rightarrow>
                     ([call x 0 [last dat / dat ! nat (ss_cmt s - 1)] y (butlast dat) dat_int],
                      Inl e)
                 | Inr x0' \<Rightarrow>
                     (case at_index ''integrator_''
                             (ss_integrator s (ss_f s) x0' 0
                                [ss_ii s - last dat / dat ! nat (ss_cmt s - 1)] y
                                (butlast dat) dat_int) 0 of
                        Inl e \<Rightarrow>
                          ([call x 0 [last dat / dat ! nat (ss_cmt s - 1)] y (butlast dat) dat_int,
                            call x0' 0 [ss_ii s - last dat / dat ! nat (ss_cmt s - 1)] y
                              (butlast dat) dat_int],
                           Inl e)
                      | Inr pred \<Rightarrow>
                          ([call x 0 [last dat / dat ! nat (ss_cmt s - 1)] y (butlast dat) dat_int,
                            call x0' 0 [ss_ii s - last dat / dat ! nat (ss_cmt s - 1)] y
                              (butlast dat) dat_int],
                           residual x pred))))"
proof -
  have ne: "dat \<noteq> []" using assms(1,2) by auto
  have amt: "at_index ''dat'' dat (int (length dat) - 1) = Inr (last dat)"
    using ne by (rule at_index_last)
  have rate: "(if ss_cmt s - 1 \<ge> 0 then at_index ''dat'' dat (ss_cmt s - 1) else Inr 0) =
                Inr (dat ! nat (ss_cmt s - 1))"
    using assms(1,2) by (simp add: at_index_def)
  show ?thesis
    unfolding SS_system_dd_def amt rate
    using assms(3,4) by (simp add: Let_def cong: sum.case_cong option.case_cong)
qed

lemma call_x_r_call: "call_x_r (call y0 t0 ts theta x_r x_i) = x_r"
  by (simp add: call_def)

lemma butlast_not_replicate: "dat \<noteq> [] \<Longrightarrow> butlast dat \<noteq> replicate (length dat) v"
proof
  assume "dat \<noteq> []" and "butlast dat = replicate (length dat) v"
  then have "length (butlast dat) = length (replicate (length dat) v)" by simp
  with \<open>dat \<noteq> []\<close> show False by (simp add: length_greater_0_conv [symmetric] del: length_greater_0_conv)
qed

lemma butlast_rate_intact:
  assumes "1 \<le> cmt" and "cmt < int (length dat)"
  shows "butlast dat ! nat (cmt - 1) = dat ! nat (cmt - 1)"
  using assms by (intro nth_butlast) (simp add: nat_less_iff nat_diff_distrib')

text \<open>
  C10. In the truncated-infusion branch of \<^verbatim>\<open>SS_system_dd::operator()\<close> (rate at the dosing
  compartment not zero, \<open>ii > 0\<close>) every call of the integrator receives \<^verbatim>\<open>dat_ode\<close>, that is
  \<^verbatim>\<open>dat\<close> without its last element, and none receives the zero-filled \<^verbatim>\<open>rate_v\<close>. When
  \<^verbatim>\<open>check_mti\<close> lets the call through and the first integration returns a state, there are two
  calls: from \<open>x\<close> to time \<open>amt / rate\<close>, and from the state reached to time
  \<open>ii - amt / rate\<close>; and the residual returned is \<open>x\<close> minus what the integrator returns
  for that second leg with \<^verbatim>\<open>dat_ode\<close> as its real data. When the dosing compartment is one
  of the compartments \<^verbatim>\<open>dat\<close> has a rate for, the real data of every call holds that rate,
  which is not zero.
\<close>

theorem SS_system_dd_truncated_infusion_calls:
  assumes "1 \<le> ss_cmt s" and "ss_cmt s \<le> int (length dat)"
    and "dat ! nat (ss_cmt s - 1) \<noteq> 0" and "ss_ii s > 0"
  shows "(\<forall>c \<in> set (fst (SS_system_dd s check_mti x y dat dat_int)).
            call_x_r c = butlast dat \<and> call_x_r c \<noteq> replicate (length dat) 0) \<and>
         (check_mti (last dat) (last dat / dat ! nat (ss_cmt s - 1)) (ss_ii s)
            ''Steady State Event'' = None \<longrightarrow>
          ss_integrator s (ss_f s) x 0 [last dat / dat ! nat (ss_cmt s - 1)] y (butlast dat) dat_int
            = x1 # rest \<longrightarrow>
          fst (SS_system_dd s check_mti x y dat dat_int) =
            [call x 0 [last dat / dat ! nat (ss_cmt s - 1)] y (butlast dat) dat_int,
             call x1 0 [ss_ii s - last dat / dat ! nat (ss_cmt s - 1)] y (butlast dat) dat_int]) \<and>
         (check_mti (last dat) (last dat / dat ! nat (ss_cmt s - 1)) (ss_ii s)
            ''Steady State Event'' = None \<longrightarrow>
          ss_integrator s (ss_f s) x 0 [last dat / dat ! nat (ss_cmt s - 1)] y (butlast dat) dat_int
            = x1 # rest \<longrightarrow>
          ss_integrator s (ss_f s) x1 0 [ss_ii s - last dat / dat ! nat (ss_cmt s - 1)] y
            (butlast dat) dat_int = pred # rest' \<longrightarrow>
          snd (SS_system_dd s check_mti x y dat dat_int) = residual x pred) \<and>
         (ss_cmt s < int (length dat) \<longrightarrow>
          (\<forall>c \<in> set (fst (SS_system_dd s check_mti x y dat dat_int)).
             call_x_r c ! nat (ss_cmt s - 1) = dat ! nat (ss_cmt s - 1) \<and>
             call_x_r c ! nat (ss_cmt s - 1) \<noteq> 0))"
proof -
  have ne: "dat \<noteq> []" using assms(1,2) by auto
  note br = SS_system_dd_truncated [OF assms]
  have all: "\<forall>c \<in> set (fst (SS_system_dd s check_mti x y dat dat_int)).
            call_x_r c = butlast dat \<and> call_x_r c \<noteq> replicate (length dat) 0"
    unfolding br
    by (simp add: call_x_r_call butlast_not_replicate [OF ne] split: option.split sum.split)
  have two: "fst (SS_system_dd s check_mti x y dat dat_int) =
            [call x 0 [last dat / dat ! nat (ss_cmt s - 1)] y (butlast dat) dat_int,
             call x1 0 [ss_ii s - last dat / dat ! nat (ss_cmt s - 1)] y (butlast dat) dat_int]"
    if "check_mti (last dat) (last dat / dat ! nat (ss_cmt s - 1)) (ss_ii s)
            ''Steady State Event'' = None"
      and "ss_integrator s (ss_f s) x 0 [last dat / dat ! nat (ss_cmt s - 1)] y (butlast dat) dat_int
            = x1 # rest"
    unfolding br using that by (simp add: at_index_hd split: sum.split)
  have res: "snd (SS_system_dd s check_mti x y dat dat_int) = residual x pred"
    if "check_mti (last dat) (last dat / dat ! nat (ss_cmt s - 1)) (ss_ii s)
            ''Steady State Event'' = None"
      and "ss_integrator s (ss_f s) x 0 [last dat / dat ! nat (ss_cmt s - 1)] y (butlast dat) dat_int
            = x1 # rest"
      and "ss_integrator s (ss_f s) x1 0 [ss_ii s - last dat / dat ! nat (ss_cmt s - 1)] y
            (butlast dat) dat_int = pred # rest'"
    unfolding br using that by (simp add: at_index_hd)
  have rates: "\<forall>c \<in> set (fst (SS_system_dd s check_mti x y dat dat_int)).
             call_x_r c ! nat (ss_cmt s - 1) = dat ! nat (ss_cmt s - 1) \<and>
             call_x_r c ! nat (ss_cmt s - 1) \<noteq> 0"
    if "ss_cmt s < int (length dat)"
    using all butlast_rate_intact [OF assms(1) that] assms(3) by simp
  show ?thesis
    using all two res rates by blast
qed

theorem SS_system_dd_truncated_infusion_calls_witness:
  "SS_system_dd (infusion_system 1) (\<lambda>amt delta ii fn. None) [100, 0] [] [5, 0, 100] [] =
     ([call [100, 0] 0 [20] [] [5, 0] [], call [200, 0] 0 [4] [] [5, 0] []], Inr [- 120, 0])"
  using SS_system_dd_truncated_infusion_calls
    [where s = "infusion_system 1" and x = "[100, 0]" and dat = "[5, 0, 100]" and y = "[]"
       and dat_int = "[]" and check_mti = "\<lambda>amt delta ii fn. None"
       and ?x1.0 = "[200, 0]" and rest = "[]" and pred = "[220, 0]" and rest' = "[]"]
  by (simp add: infusion_system_def residual_def prod_eq_iff upt_rec)

section \<open>The comparison with tolerances\<close>

text \<open>
  C8. In \<^verbatim>\<open>test_val(y1, y2, rtol, atol)\<close> a pair of elements is to be compared within
  \<open>atol\<close> when both magnitudes are below \<open>1e-5\<close>, and otherwise within \<open>rtol\<close> times the
  larger magnitude of the two. The code multiplies \<open>rtol\<close> by \<^verbatim>\<open>std::max(y1_i, y2_i)\<close>, the
  larger of the values themselves: for two equal negative values the bound is negative
  and the assertion fails, where the comparison by magnitudes holds.
\<close>

theorem test_val_negative_values:
  "test_val \<lparr>rows = 1, cols = 1, coeffs = [- 2]\<rparr> \<lparr>rows = 1, cols = 1, coeffs = [- 2]\<rparr>
            (1 / 1000) (1 / 1000000) = Inr [True, True, False] \<and>
   compare_as_specified (- 2) (- 2) (1 / 1000) (1 / 1000000)"
  by (simp add: test_val_def at_index_def EXPECT_EQ_def EXPECT_NEAR_def compare_as_specified_def)

section \<open>Properties of \<open>acos\<close> on dual numbers\<close>

lemma d_mul_commute: "d_mul a b = d_mul b a"
  by (cases a; cases b) (auto simp add: infinity_def)

lemma d_mul_NaN_left: "d_mul NaN d = NaN"
  by (cases d) simp_all

lemma square_less_one:
  fixes v :: real
  assumes "- 1 < v" and "v < 1"
  shows "v * v < 1"
proof -
  have "\<bar>v\<bar> < 1" using assms by auto
  then have "\<bar>v\<bar> * \<bar>v\<bar> < 1 * 1"
    by (intro mult_strict_mono') simp_all
  then show ?thesis by simp
qed

lemma acos_derivative_double:
  assumes "- 1 < v" and "v < 1"
  shows "d_div (Fin (- 1)) (d_sqrt (d_sub (Fin 1) (d_mul (Fin v) (Fin v)))) =
           Fin (- 1 / sqrt (1 - v\<^sup>2))"
proof -
  have "v * v < 1" using assms by (rule square_less_one)
  then show ?thesis
    by (simp add: d_sub_def power2_eq_square)
qed


text \<open>
  C1. For a finite value \<open>v\<close> strictly inside \<open>(-1, 1)\<close> and every tangent seed \<open>d\<close>, \<open>acos\<close> on
  the dual number returns the value \<open>acos v\<close> and the tangent \<open>d * (-1 / sqrt (1 - v^2))\<close>,
  which is \<open>d\<close> times the derivative of \<open>acos\<close> at \<open>v\<close>; and \<open>-3 * acos x + 5 * x\<close> has the
  value \<open>-3 * acos v + 5 * v\<close> and the tangent \<open>-3 * (s * (-1 / sqrt (1 - v^2))) + 5 * s\<close> for
  a finite seed \<open>s\<close>. Finite values are exact in this model, so the equalities hold within
  every tolerance.
\<close>

theorem acos_dual_interior:
  assumes "- 1 < v" and "v < 1"
  shows "val (acos_dual double_ops (Dual (Fin v) d)) = Fin (arccos v) \<and>
         tangent (acos_dual double_ops (Dual (Fin v) d)) = d_mul d (Fin (- 1 / sqrt (1 - v\<^sup>2))) \<and>
         acos_dual double_ops (Dual (Fin v) (Fin s)) =
           Dual (Fin (arccos v)) (Fin (s * (- 1 / sqrt (1 - v\<^sup>2)))) \<and>
         (arccos has_real_derivative (- 1 / sqrt (1 - v\<^sup>2))) (at v) \<and>
         dual_add double_ops
           (dual_scale double_ops (Fin (- 3)) (acos_dual double_ops (Dual (Fin v) (Fin s))))
           (dual_scale double_ops (Fin 5) (Dual (Fin v) (Fin s))) =
           Dual (Fin (- 3 * arccos v + 5 * v))
                (Fin (- 3 * (s * (- 1 / sqrt (1 - v\<^sup>2))) + 5 * s))"
proof -
  note g' = acos_derivative_double [OF assms]
  have v_eq: "val (acos_dual double_ops (Dual (Fin v) d)) = Fin (arccos v)" for d
    using assms by (simp add: acos_dual_def double_ops_def)
  have tang: "tangent (acos_dual double_ops (Dual (Fin v) d)) =
                d_mul d (Fin (- 1 / sqrt (1 - v\<^sup>2)))" for d
    unfolding acos_dual_def double_ops_def
    by (simp only: Dual.sel scalar.select_convs g') (rule d_mul_commute)
  have both: "acos_dual double_ops (Dual (Fin v) (Fin s)) =
           Dual (Fin (arccos v)) (Fin (s * (- 1 / sqrt (1 - v\<^sup>2))))" for s
    using v_eq [of "Fin s"] tang [of "Fin s"]
    by (cases "acos_dual double_ops (Dual (Fin v) (Fin s))") simp
  have deriv: "(arccos has_real_derivative (- 1 / sqrt (1 - v\<^sup>2))) (at v)"
    using DERIV_arccos [OF assms] by (simp add: inverse_eq_divide)
  have comp: "dual_add double_ops
           (dual_scale double_ops (Fin (- 3)) (acos_dual double_ops (Dual (Fin v) (Fin s))))
           (dual_scale double_ops (Fin 5) (Dual (Fin v) (Fin s))) =
           Dual (Fin (- 3 * arccos v + 5 * v))
                (Fin (- 3 * (s * (- 1 / sqrt (1 - v\<^sup>2))) + 5 * s))"
    unfolding both by (simp add: dual_add_def dual_scale_def double_ops_def)
  show ?thesis
    using v_eq tang both deriv comp by blast
qed

theorem acos_dual_interior_witness:
  "acos_dual double_ops (Dual (Fin (1 / 2)) (Fin 1)) =
     Dual (Fin (arccos (1 / 2))) (Fin (- 1 / sqrt (1 - (1 / 2)\<^sup>2))) \<and>
   dual_add double_ops
     (dual_scale double_ops (Fin (- 3)) (acos_dual double_ops (Dual (Fin (1 / 2)) (Fin 1))))
     (dual_scale double_ops (Fin 5) (Dual (Fin (1 / 2)) (Fin 1))) =
     Dual (Fin (- 3 * arccos (1 / 2) + 5 / 2)) (Fin (- 3 * (- 1 / sqrt (1 - (1 / 2)\<^sup>2)) + 5))"
  using acos_dual_interior [where v = "1 / 2" and s = 1 and d = "Fin 1"]
  by (simp add: dual_add_def dual_scale_def double_ops_def)

text \<open>
  C4. \<open>acos\<close> of the dual number with value 1 and tangent seed 1 returns the value
  \<open>acos 1 = 0\<close> and the tangent \<open>-\<infinity>\<close>; it returns, as every function of this model does.
\<close>

theorem acos_dual_at_one:
  "acos_dual double_ops (Dual (Fin 1) (Fin 1)) = Dual (Fin 0) NInf"
  by (simp add: acos_dual_def double_ops_def d_sub_def infinity_def)

text \<open>
  C5. \<open>acos\<close> of a dual number whose value lies strictly outside \<open>[-1, 1]\<close>, finite or
  infinite, returns NaN as value and as tangent, whatever the tangent seed; the function
  is total and NaN is what it returns.
\<close>

theorem acos_dual_outside_domain:
  assumes "v < - 1 \<or> 1 < v"
  shows "acos_dual double_ops (Dual (Fin v) d) = Dual NaN NaN \<and>
         acos_dual double_ops (Dual PInf d) = Dual NaN NaN \<and>
         acos_dual double_ops (Dual NInf d) = Dual NaN NaN"
proof -
  have "1 < \<bar>v\<bar>"
    using assms by auto
  then have "1 * 1 < \<bar>v\<bar> * \<bar>v\<bar>"
    by (intro mult_strict_mono) simp_all
  then have "1 < v * v"
    by simp
  then have "d_sqrt (d_sub (Fin 1) (d_mul (Fin v) (Fin v))) = NaN"
    by (simp add: d_sub_def)
  then have finite: "acos_dual double_ops (Dual (Fin v) d) = Dual NaN NaN"
    using assms by (auto simp add: acos_dual_def double_ops_def d_mul_NaN_left)
  have infinite: "acos_dual double_ops (Dual PInf d) = Dual NaN NaN"
    "acos_dual double_ops (Dual NInf d) = Dual NaN NaN"
    by (simp_all add: acos_dual_def double_ops_def d_sub_def infinity_def d_mul_NaN_left)
  show ?thesis
    using finite infinite by blast
qed

theorem acos_dual_outside_domain_witness:
  "acos_dual double_ops (Dual (Fin (34 / 10)) (Fin 1)) = Dual NaN NaN"
  using acos_dual_outside_domain [where v = "34 / 10" and d = "Fin 1"]
  by simp

lemma DBL_MAX_large: "2 ^ 54 \<le> DBL_MAX"
proof -
  have "(2::real) ^ 54 \<le> 1 * 2 ^ 1023"
    by (simp add: power_increasing)
  also have "\<dots> \<le> (2 - 1 / 2 ^ 52) * 2 ^ 1023"
    by (intro mult_right_mono) simp_all
  finally show ?thesis
    by (simp add: DBL_MAX_def)
qed













lemma acos_dual_dual_unfold:
  "acos_dual (dual_ops T) x =
     Dual (acos_dual T (val x))
          (dual_mul T
             (dual_div T (dual_const T (Fin (- 1)))
                (sqrt_dual T (dual_sub T (dual_const T (Fin 1)) (dual_mul T (val x) (val x)))))
             (tangent x))"
  by (subst acos_dual_def) (simp add: dual_ops_def)






text \<open>
  The bound on the seed is needed as well: at the value \<open>3/5\<close> with the largest \<^verbatim>\<open>double\<close> as
  the inner seed, the tangent of \<open>x * x\<close> overflows, the second-order part of the
  derivative is infinite, and its product with the zero seed of the outer direction is
  NaN.
\<close>

lemma sqrt_16_25: "sqrt (16 / 25) = 4 / 5"
  by (rule real_sqrt_unique) (simp_all add: power2_eq_square)

lemma acos_dual_dual_seed_overflow:
  "tangent (acos_dual (dual_ops double_overflow_ops)
              (Dual (Dual (Fin (3 / 5)) (Fin DBL_MAX)) (Dual (Fin 0) (Fin 0)))) =
     Dual (Fin 0) NaN"
proof -
  have M: "100 \<le> DBL_MAX" using DBL_MAX_large by simp
  have 1: "dual_mul double_overflow_ops (Dual (Fin (3 / 5)) (Fin DBL_MAX))
             (Dual (Fin (3 / 5)) (Fin DBL_MAX)) = Dual (Fin (9 / 25)) PInf"
    using M by (simp add: dual_mul_def double_overflow_ops_def ovf_mul_def ovf_add_def)
  have 2: "dual_sub double_overflow_ops (dual_const double_overflow_ops (Fin 1))
             (Dual (Fin (9 / 25)) PInf) = Dual (Fin (16 / 25)) NInf"
    using M by (simp add: dual_sub_def dual_const_def double_overflow_ops_def ovf_sub_def d_sub_def)
  have 3: "sqrt_dual double_overflow_ops (Dual (Fin (16 / 25)) NInf) = Dual (Fin (4 / 5)) NInf"
    using M
    by (simp add: sqrt_dual_def double_overflow_ops_def ovf_mul_def ovf_div_def sqrt_16_25
        infinity_def)
  have 4: "dual_div double_overflow_ops (dual_const double_overflow_ops (Fin (- 1)))
             (Dual (Fin (4 / 5)) NInf) = Dual (Fin (- 5 / 4)) NInf"
    using M
    by (simp add: dual_div_def dual_const_def double_overflow_ops_def ovf_mul_def ovf_div_def
        ovf_sub_def d_sub_def infinity_def)
  have 5: "dual_mul double_overflow_ops (Dual (Fin (- 5 / 4)) NInf) (Dual (Fin 0) (Fin 0)) =
             Dual (Fin 0) NaN"
    using M by (simp add: dual_mul_def double_overflow_ops_def ovf_mul_def ovf_add_def)
  show ?thesis
    by (simp only: acos_dual_dual_unfold Dual.sel 1 2 3 4 5)
qed



end
